theory Spec2Isabelle
  imports Complex_Main
begin

section \<open>JavaScript values read by \<open>index.js\<close>\<close>

text \<open>
  The module receives a connection-like object, the received headers and a whitelist.
  The values it can meet are modelled as plain data: \<open>undefined\<close>, \<open>null\<close>, booleans,
  numbers, strings and objects. An object is the association list of its own properties
  (the first binding of a key is the one read) and inherits from \<open>Object.prototype\<close>.
  No value is a function, so a property is never callable. Functions, symbols, bigints,
  arrays and accessors are outside the model.

  A number is an IEEE double: \<open>NaN\<close>, the two infinities, or a finite value kept as the
  rational it denotes. Negative zero is identified with zero: the program only tests
  numbers for truthiness, where both behave alike, and replaces a falsy one by \<open>0\<close>.

  Strings are lists of 8-bit characters, the code units of a header value that Node
  decodes as latin1.
\<close>

datatype error = TypeError

datatype jsnum = NaN | PosInfinity | NegInfinity | Finite rat

datatype jsval =
    Undefined
  | Null
  | Bool bool
  | Num jsnum
  | Str string
  | Obj "(string \<times> jsval) list"

text \<open>\<open>ToBoolean\<close>: what \<open>||\<close>, \<open>?:\<close> and \<open>if\<close> test.\<close>

fun truthy :: "jsval \<Rightarrow> bool" where
  "truthy Undefined = False"
| "truthy Null = False"
| "truthy (Bool b) = b"
| "truthy (Num n) = (n \<noteq> NaN \<and> n \<noteq> Finite 0)"
| "truthy (Str s) = (s \<noteq> [])"
| "truthy (Obj fs) = True"

fun typeof :: "jsval \<Rightarrow> string" where
  "typeof Undefined = ''undefined''"
| "typeof Null = ''object''"
| "typeof (Bool b) = ''boolean''"
| "typeof (Num n) = ''number''"
| "typeof (Str s) = ''string''"
| "typeof (Obj fs) = ''object''"

text \<open>
  Property read \<open>v.k\<close>. Reading from \<open>undefined\<close> or \<open>null\<close> throws; a primitive has none
  of the property names this module reads (\<open>connection\<close>, \<open>socket\<close>, \<open>remoteAddress\<close>,
  \<open>remotePort\<close>, \<open>address\<close>, \<open>port\<close>), and neither has \<open>Object.prototype\<close>.
\<close>

fun get :: "jsval \<Rightarrow> string \<Rightarrow> error + jsval" where
  "get Undefined k = Inl TypeError"
| "get Null k = Inl TypeError"
| "get (Obj fs) k = Inr (case map_of fs k of None \<Rightarrow> Undefined | Some v \<Rightarrow> v)"
| "get v k = Inr Undefined"

text \<open>The operator \<open>k in v\<close>: it throws unless its right operand is an object.\<close>

fun has :: "string \<Rightarrow> jsval \<Rightarrow> error + bool" where
  "has k (Obj fs) = Inr (map_of fs k \<noteq> None)"
| "has k v = Inl TypeError"

text \<open>A step that throws ends the evaluation with its error.\<close>

definition bind :: "error + 'a \<Rightarrow> ('a \<Rightarrow> error + 'b) \<Rightarrow> error + 'b" where
  "bind m f = (case m of Inl e \<Rightarrow> Inl e | Inr x \<Rightarrow> f x)"

section \<open>Numeric coercion\<close>

text \<open>
  \<open>StringToNumber\<close> of ECMA-262: trim white space, read the empty string as \<open>0\<close>, read
  \<open>Infinity\<close> with an optional sign, a decimal literal with an optional sign, fraction
  and exponent, or an unsigned binary, octal or hexadecimal literal; anything else is
  \<open>NaN\<close>. The mathematical value is rounded to the nearest double, ties to even.
\<close>

definition StrWhiteSpaceChar :: "char \<Rightarrow> bool" where
  "StrWhiteSpaceChar c \<longleftrightarrow>
     c \<in> set [CHR 0x09, CHR 0x0A, CHR 0x0B, CHR 0x0C, CHR 0x0D, CHR 0x20, CHR 0xA0]"

definition trim :: "string \<Rightarrow> string" where
  "trim s = rev (dropWhile StrWhiteSpaceChar (rev (dropWhile StrWhiteSpaceChar s)))"

definition digit_of :: "char \<Rightarrow> nat option" where
  "digit_of c =
     (let n = (of_char c :: nat) in
      if 48 \<le> n \<and> n \<le> 57 then Some (n - 48)
      else if 97 \<le> n \<and> n \<le> 102 then Some (n - 87)
      else if 65 \<le> n \<and> n \<le> 70 then Some (n - 55)
      else None)"

fun digits :: "int \<Rightarrow> int \<Rightarrow> string \<Rightarrow> int option" where
  "digits b acc [] = Some acc"
| "digits b acc (c # cs) =
     (case digit_of c of
        None \<Rightarrow> None
      | Some d \<Rightarrow> if int d < b then digits b (acc * b + int d) cs else None)"

definition Digits :: "int \<Rightarrow> string \<Rightarrow> int option" where
  "Digits b s = (if s = [] then None else digits b 0 s)"

definition pow :: "int \<Rightarrow> int \<Rightarrow> rat" where
  "pow b k = (if 0 \<le> k then of_int b ^ nat k else 1 / of_int b ^ nat (- k))"

function ilog2 :: "int \<Rightarrow> int" where
  "ilog2 n = (if n < 2 then 0 else 1 + ilog2 (n div 2))"
  by pat_completeness auto
termination
  by (relation "measure nat") auto

declare ilog2.simps [simp del]

text \<open>The exponent \<open>e\<close> with \<open>2 ^ e \<le> a < 2 ^ (e + 1)\<close>, for a positive rational.\<close>

definition floor_log2 :: "rat \<Rightarrow> int" where
  "floor_log2 a =
     (let (p, q) = quotient_of a;
          k = ilog2 p - ilog2 q
      in if pow 2 k \<le> a then k else k - 1)"

definition round_half_even :: "rat \<Rightarrow> int" where
  "round_half_even x =
     (let f = \<lfloor>x\<rfloor>; d = x - of_int f in
      if d < 1 / 2 then f
      else if 1 / 2 < d then f + 1
      else if even f then f else f + 1)"

definition RoundToDouble :: "rat \<Rightarrow> jsnum" where
  "RoundToDouble q =
     (if q = 0 then Finite 0
      else
        let a = \<bar>q\<bar>;
            e = max (floor_log2 a) (- 1022);
            ulp = pow 2 (e - 52);
            r = of_int (round_half_even (a / ulp)) * ulp
        in if pow 2 1024 \<le> r then (if q < 0 then NegInfinity else PosInfinity)
           else Finite (if q < 0 then - r else r))"

definition ExponentPart :: "string \<Rightarrow> int option" where
  "ExponentPart x =
     (case x of
        [] \<Rightarrow> Some 0
      | e # r \<Rightarrow>
          (case r of
             [] \<Rightarrow> None
           | c # ds \<Rightarrow>
               if c = CHR ''-'' then map_option uminus (Digits 10 ds)
               else if c = CHR ''+'' then Digits 10 ds
               else Digits 10 r))"

definition StrUnsignedDecimalLiteral :: "string \<Rightarrow> rat option" where
  "StrUnsignedDecimalLiteral s =
     (let isE = (\<lambda>c. c = CHR ''e'' \<or> c = CHR ''E'');
          m = takeWhile (\<lambda>c. \<not> isE c) s;
          x = dropWhile (\<lambda>c. \<not> isE c) s;
          ip = takeWhile (\<lambda>c. c \<noteq> CHR ''.'') m;
          fr = drop 1 (dropWhile (\<lambda>c. c \<noteq> CHR ''.'') m)
      in case (Digits 10 (ip @ fr), ExponentPart x) of
           (Some n, Some k) \<Rightarrow> Some (of_int n * pow 10 (k - int (length fr)))
         | _ \<Rightarrow> None)"

definition NonDecimalIntegerLiteral :: "string \<Rightarrow> int option option" where
  "NonDecimalIntegerLiteral t =
     (if take 2 t = ''0x'' \<or> take 2 t = ''0X'' then Some (Digits 16 (drop 2 t))
      else if take 2 t = ''0o'' \<or> take 2 t = ''0O'' then Some (Digits 8 (drop 2 t))
      else if take 2 t = ''0b'' \<or> take 2 t = ''0B'' then Some (Digits 2 (drop 2 t))
      else None)"

definition StringToNumber :: "string \<Rightarrow> jsnum" where
  "StringToNumber s =
     (let t = trim s in
      if t = [] then Finite 0
      else if t = ''Infinity'' \<or> t = ''+Infinity'' then PosInfinity
      else if t = ''-Infinity'' then NegInfinity
      else case NonDecimalIntegerLiteral t of
             Some r \<Rightarrow> (case r of None \<Rightarrow> NaN | Some n \<Rightarrow> RoundToDouble (of_int n))
           | None \<Rightarrow>
               (case (if hd t = CHR ''-'' then map_option uminus (StrUnsignedDecimalLiteral (tl t))
                      else if hd t = CHR ''+'' then StrUnsignedDecimalLiteral (tl t)
                      else StrUnsignedDecimalLiteral t) of
                  None \<Rightarrow> NaN
                | Some q \<Rightarrow> RoundToDouble q))"

text \<open>
  \<open>ToNumber\<close>, the unary \<open>+\<close>. An object converts through \<open>OrdinaryToPrimitive\<close> with
  hint number: \<open>valueOf\<close>, then \<open>toString\<close>, each called if it is callable, the first
  primitive result converted in turn; a \<open>TypeError\<close> if neither gives a primitive. The
  inherited \<open>valueOf\<close> returns the object itself and the inherited \<open>toString\<close> returns
  \<open>[object Object]\<close>, which is no numeric literal. An own \<open>valueOf\<close> or \<open>toString\<close>
  hides the inherited one and is not callable. So an object with an own \<open>toString\<close>
  throws, and every other object converts to \<open>NaN\<close>.
\<close>

fun ToNumber :: "jsval \<Rightarrow> error + jsnum" where
  "ToNumber Undefined = Inr NaN"
| "ToNumber Null = Inr (Finite 0)"
| "ToNumber (Bool b) = Inr (if b then Finite 1 else Finite 0)"
| "ToNumber (Num n) = Inr n"
| "ToNumber (Str s) = Inr (StringToNumber s)"
| "ToNumber (Obj fs) = (if map_of fs ''toString'' = None then Inr NaN else Inl TypeError)"

section \<open>The result: \<open>Forwarded\<close>\<close>

record Forwarded =
  ip :: jsval
  secure :: bool
  port :: jsnum

text \<open>
  \<open>function Forwarded(ip, port, secured)\<close>: \<open>ip || '127.0.0.1'\<close>, \<open>!!secured\<close>,
  \<open>+port || 0\<close>, where \<open>n || 0\<close> on a number \<open>n\<close> is \<open>or_zero n\<close>. The constructor
  throws when \<open>+port\<close> does.
\<close>

definition or_zero :: "jsnum \<Rightarrow> jsnum" where
  "or_zero n = (if truthy (Num n) then n else Finite 0)"

definition Forwarded :: "jsval \<Rightarrow> jsval \<Rightarrow> jsval \<Rightarrow> error + Forwarded" where
  "Forwarded ip' port' secured =
     bind (ToNumber port') (\<lambda>n.
     Inr \<lparr>ip = (if truthy ip' then ip' else Str ''127.0.0.1''),
          secure = truthy secured,
          port = or_zero n\<rparr>)"

section \<open>\<open>net.isIP\<close>\<close>

text \<open>
  \<open>net.isIP\<close> belongs to Node, not to this module. Node tests the argument against two
  anchored regular expressions (\<open>lib/internal/net.js\<close>) and answers \<open>4\<close>, \<open>6\<close> or \<open>0\<close>.
  The expressions use character classes, sequence, alternation and counted repetition
  only, so a match is membership in a regular language, decided here by derivatives.
  The properties below rest on three facts about it: its value on the strings of the
  examples, that it rejects the empty string, and that no string it accepts has a comma.
\<close>

datatype regex =
    Never
  | Empty
  | Class string
  | Seq regex regex
  | Alt regex regex
  | Many regex

fun nullable :: "regex \<Rightarrow> bool" where
  "nullable Never = False"
| "nullable Empty = True"
| "nullable (Class cs) = False"
| "nullable (Seq r s) = (nullable r \<and> nullable s)"
| "nullable (Alt r s) = (nullable r \<or> nullable s)"
| "nullable (Many r) = True"

definition seq :: "regex \<Rightarrow> regex \<Rightarrow> regex" where
  "seq r s =
     (if r = Never \<or> s = Never then Never
      else if r = Empty then s
      else if s = Empty then r
      else Seq r s)"

definition alt :: "regex \<Rightarrow> regex \<Rightarrow> regex" where
  "alt r s = (if r = Never then s else if s = Never then r else Alt r s)"

fun deriv :: "char \<Rightarrow> regex \<Rightarrow> regex" where
  "deriv c Never = Never"
| "deriv c Empty = Never"
| "deriv c (Class cs) = (if c \<in> set cs then Empty else Never)"
| "deriv c (Seq r s) =
     alt (seq (deriv c r) s) (if nullable r then deriv c s else Never)"
| "deriv c (Alt r s) = alt (deriv c r) (deriv c s)"
| "deriv c (Many r) = seq (deriv c r) (Many r)"

fun matches :: "regex \<Rightarrow> string \<Rightarrow> bool" where
  "matches r [] = nullable r"
| "matches r (c # cs) = matches (deriv c r) cs"

text \<open>Counted repetition: \<open>r{n}\<close>, \<open>r{0,n}\<close>, \<open>r{m,n}\<close>, \<open>r{1,}\<close> and \<open>r?\<close>.\<close>

primrec repeat :: "nat \<Rightarrow> regex \<Rightarrow> regex" where
  "repeat 0 r = Empty"
| "repeat (Suc n) r = Seq r (repeat n r)"

primrec at_most :: "nat \<Rightarrow> regex \<Rightarrow> regex" where
  "at_most 0 r = Empty"
| "at_most (Suc n) r = Alt Empty (Seq r (at_most n r))"

definition between :: "nat \<Rightarrow> nat \<Rightarrow> regex \<Rightarrow> regex" where
  "between m n r = Seq (repeat m r) (at_most (n - m) r)"

definition some :: "regex \<Rightarrow> regex" where
  "some r = Seq r (Many r)"

definition opt :: "regex \<Rightarrow> regex" where
  "opt r = Alt Empty r"

text \<open>
  \<^verbatim>\<open>v4Seg = '(?:25[0-5]|2[0-4]\d|1\d\d|[1-9]\d|\d)'\<close>,
  \<^verbatim>\<open>v4Str = `(?:${v4Seg}\.){3}${v4Seg}`\<close>,
  \<^verbatim>\<open>IPv4Reg = new RegExp(`^${v4Str}$`)\<close>.
\<close>

definition digit :: regex where
  "digit = Class ''0123456789''"

definition v4Seg :: regex where
  "v4Seg =
     Alt (Seq (Class ''2'') (Seq (Class ''5'') (Class ''012345'')))
    (Alt (Seq (Class ''2'') (Seq (Class ''01234'') digit))
    (Alt (Seq (Class ''1'') (Seq digit digit))
    (Alt (Seq (Class ''123456789'') digit)
         digit)))"

definition v4Str :: regex where
  "v4Str = Seq (repeat 3 (Seq v4Seg (Class ''.''))) v4Seg"

definition IPv4Reg :: regex where
  "IPv4Reg = v4Str"

text \<open>
  \<^verbatim>\<open>v6Seg = '(?:[0-9a-fA-F]{1,4})'\<close> and \<open>IPv6Reg\<close>: eight alternatives, by the number of
  groups before the \<open>::\<close> or the embedded IPv4 address, then an optional zone.
  With \<open>S\<close> for \<open>v6Seg\<close> and \<open>V\<close> for \<open>v4Str\<close>:

  \<^verbatim>\<open>^(?:(?:S:){7}(?:S|:)|\<close>
  \<^verbatim>\<open>(?:S:){6}(?:V|:S|:)|\<close>
  \<^verbatim>\<open>(?:S:){5}(?::V|(?::S){1,2}|:)|\<close>
  \<^verbatim>\<open>(?:S:){4}(?:(?::S){0,1}:V|(?::S){1,3}|:)|\<close>
  \<^verbatim>\<open>(?:S:){3}(?:(?::S){0,2}:V|(?::S){1,4}|:)|\<close>
  \<^verbatim>\<open>(?:S:){2}(?:(?::S){0,3}:V|(?::S){1,5}|:)|\<close>
  \<^verbatim>\<open>(?:S:){1}(?:(?::S){0,4}:V|(?::S){1,6}|:)|\<close>
  \<^verbatim>\<open>(?::(?:(?::S){0,5}:V|(?::S){1,7}|:)))(?:%[0-9a-zA-Z-.:]{1,})?$\<close>
\<close>

definition v6Seg :: regex where
  "v6Seg = between 1 4 (Class ''0123456789abcdefABCDEF'')"

definition colon :: regex where
  "colon = Class '':''"

definition v6SegColon :: regex where
  "v6SegColon = Seq v6Seg colon"

definition colonV6Seg :: regex where
  "colonV6Seg = Seq colon v6Seg"

definition colonV4Str :: regex where
  "colonV4Str = Seq colon v4Str"

definition zone :: regex where
  "zone =
     Seq (Class ''%'')
       (some (Class ''0123456789abcdefghijklmnopqrstuvwxyzABCDEFGHIJKLMNOPQRSTUVWXYZ-.:''))"

definition IPv6Reg :: regex where
  "IPv6Reg =
     Seq
      (Alt (Seq (repeat 7 v6SegColon) (Alt v6Seg colon))
      (Alt (Seq (repeat 6 v6SegColon) (Alt v4Str (Alt colonV6Seg colon)))
      (Alt (Seq (repeat 5 v6SegColon)
              (Alt colonV4Str (Alt (between 1 2 colonV6Seg) colon)))
      (Alt (Seq (repeat 4 v6SegColon)
              (Alt (Seq (at_most 1 colonV6Seg) colonV4Str) (Alt (between 1 3 colonV6Seg) colon)))
      (Alt (Seq (repeat 3 v6SegColon)
              (Alt (Seq (at_most 2 colonV6Seg) colonV4Str) (Alt (between 1 4 colonV6Seg) colon)))
      (Alt (Seq (repeat 2 v6SegColon)
              (Alt (Seq (at_most 3 colonV6Seg) colonV4Str) (Alt (between 1 5 colonV6Seg) colon)))
      (Alt (Seq (repeat 1 v6SegColon)
              (Alt (Seq (at_most 4 colonV6Seg) colonV4Str) (Alt (between 1 6 colonV6Seg) colon)))
           (Seq colon
              (Alt (Seq (at_most 5 colonV6Seg) colonV4Str) (Alt (between 1 7 colonV6Seg) colon)))
      )))))))
      (opt zone)"

definition isIPv4 :: "string \<Rightarrow> bool" where
  "isIPv4 s = matches IPv4Reg s"

definition isIPv6 :: "string \<Rightarrow> bool" where
  "isIPv6 s = matches IPv6Reg s"

definition isIP :: "string \<Rightarrow> nat" where
  "isIP s = (if isIPv4 s then 4 else if isIPv6 s then 6 else 0)"

section \<open>The proxy headers and their resolution\<close>

record proxy =
  ip :: string
  port :: string
  proto :: "string option"

definition proxies :: "proxy list" where
  "proxies =
     [\<lparr>proxy.ip = ''x-forwarded-for'', proxy.port = ''x-forwarded-port'',
        proxy.proto = Some ''x-forwarded-proto''\<rparr>,
      \<lparr>proxy.ip = ''z-forwarded-for'', proxy.port = ''z-forwarded-port'',
        proxy.proto = Some ''z-forwarded-proto''\<rparr>,
      \<lparr>proxy.ip = ''forwarded'', proxy.port = ''forwarded-port'',
        proxy.proto = Some ''forwarded-proto''\<rparr>,
      \<lparr>proxy.ip = ''x-real-ip'', proxy.port = ''x-real-port'',
        proxy.proto = None\<rparr>]"

text \<open>
  The received headers map lower-case names to strings. \<open>headers[k] || ''\<close> reads a
  missing header, and an empty one, as the empty string.
\<close>

type_synonym headers = "string \<rightharpoonup> string"

definition or_empty :: "string option \<Rightarrow> string" where
  "or_empty v = (case v of None \<Rightarrow> [] | Some s \<Rightarrow> s)"

text \<open>
  \<open>String.prototype.split\<close> with a one-character separator: the pieces between the
  separators, one piece more than there are separators, so never an empty array.
\<close>

fun split :: "char \<Rightarrow> string \<Rightarrow> string list" where
  "split sep [] = [[]]"
| "split sep (c # cs) =
     (if c = sep then [] # split sep cs
      else case split sep cs of
             [] \<Rightarrow> [[c]]
           | x # xs \<Rightarrow> (c # x) # xs)"

text \<open>\<open>Array.prototype.shift\<close>, for its value: the first element, \<open>undefined\<close> if none.\<close>

definition shift :: "string list \<Rightarrow> jsval" where
  "shift xs = (case xs of [] \<Rightarrow> Undefined | x # _ \<Rightarrow> Str x)"

text \<open>
  \<open>function forwarded(headers)\<close>. The loop over \<open>proxies\<close> is a recursion over the entries
  still to try; \<open>continue\<close> is the recursive call, \<open>return;\<close> is \<open>None\<close>, and a throw of
  the constructor is the error.

  \<^verbatim>\<open>if (!(proxies[i].ip in headers)) continue;\<close>
  \<^verbatim>\<open>var ports = (headers[proxies[i].port] || '').split(',')\<close>
  \<^verbatim>\<open>  , ips = (headers[proxies[i].ip] || '').split(',');\<close>
  \<^verbatim>\<open>if (!ips.length || !ips.every(net.isIP)) return;\<close>
  \<^verbatim>\<open>return new Forwarded(ips.shift(), ports.shift());\<close>
\<close>

fun forwarded_loop :: "proxy list \<Rightarrow> headers \<Rightarrow> error + Forwarded option" where
  "forwarded_loop [] headers = Inr None"
| "forwarded_loop (p # ps) headers =
     (if headers (proxy.ip p) = None then forwarded_loop ps headers
      else
        let ports = split CHR '','' (or_empty (headers (proxy.port p)));
            ips = split CHR '','' (or_empty (headers (proxy.ip p)))
        in if length ips = 0 \<or> \<not> list_all (\<lambda>s. isIP s \<noteq> 0) ips then Inr None
           else bind (Forwarded (shift ips) (shift ports) Undefined) (\<lambda>r. Inr (Some r)))"

definition forwarded :: "headers \<Rightarrow> error + Forwarded option" where
  "forwarded headers = forwarded_loop proxies headers"

section \<open>\<open>parse\<close>, the exported function\<close>

text \<open>
  \<open>parse(obj, headers, whitelist)\<close>. The declarations come first, as in the source: the
  headers are searched, \<open>obj.connection\<close> is read, then \<open>connection.socket\<close> or
  \<open>obj.socket\<close>. Each \<open>if\<close> that follows returns or falls through to the next; a
  condition that throws ends the call with the error.
\<close>

definition parse :: "jsval \<Rightarrow> headers \<Rightarrow> jsval \<Rightarrow> error + Forwarded" where
  "parse obj headers whitelist =
     bind (forwarded headers) (\<lambda>proxied.
     bind (get obj ''connection'') (\<lambda>connection.
     bind (if truthy connection then get connection ''socket'' else get obj ''socket'')
       (\<lambda>socket.
     case proxied of
       Some r \<Rightarrow> Inr r
     | None \<Rightarrow>
     bind (if typeof obj = ''object'' then has ''remoteAddress'' obj else Inr False) (\<lambda>c1.
     if c1 then
       bind (get obj ''remoteAddress'') (\<lambda>a.
       bind (get obj ''remotePort'') (\<lambda>p. Forwarded a p Undefined))
     else
     bind (if typeof obj = ''object''
           then bind (has ''address'' obj) (\<lambda>b. if b then has ''port'' obj else Inr False)
           else Inr False) (\<lambda>c2.
     if c2 then
       bind (get obj ''address'') (\<lambda>a.
       bind (get obj ''port'') (\<lambda>p. Forwarded a p Undefined))
     else
     bind (if typeof connection = ''object'' then has ''remoteAddress'' connection
           else Inr False) (\<lambda>c3.
     if c3 then
       bind (get connection ''remoteAddress'') (\<lambda>a.
       bind (get connection ''remotePort'') (\<lambda>p. Forwarded a p Undefined))
     else
     bind (if typeof socket = ''object'' then has ''remoteAddress'' socket
           else Inr False) (\<lambda>c4.
     if c4 then
       bind (get socket ''remoteAddress'') (\<lambda>a. Forwarded a a Undefined)
     else Forwarded Undefined Undefined Undefined)))))))"

section \<open>Notions used to state the properties\<close>

text \<open>The entry the loop stops at: the first one whose \<open>ip\<close> header is present.\<close>

definition first_match :: "headers \<Rightarrow> proxy option" where
  "first_match headers = find (\<lambda>p. headers (proxy.ip p) \<noteq> None) proxies"

text \<open>
  The arguments \<open>(ip, port)\<close> of the call of \<open>Forwarded\<close> that gives the result: from the
  headers, the first piece of the matched \<open>ip\<close> header and of its \<open>port\<close> header; else
  from the stage of the fallback that answers. \<open>parse\<close> is \<open>Forwarded\<close> applied to them
  (lemma \<open>parse_arguments\<close>).
\<close>

definition header_arguments :: "headers \<Rightarrow> (jsval \<times> jsval) option" where
  "header_arguments headers =
     (case first_match headers of
        None \<Rightarrow> None
      | Some p \<Rightarrow>
          if list_all (\<lambda>s. isIP s \<noteq> 0) (split CHR '','' (or_empty (headers (proxy.ip p))))
          then Some (shift (split CHR '','' (or_empty (headers (proxy.ip p)))),
                     shift (split CHR '','' (or_empty (headers (proxy.port p)))))
          else None)"

definition arguments :: "jsval \<Rightarrow> headers \<Rightarrow> error + jsval \<times> jsval" where
  "arguments obj headers =
     bind (get obj ''connection'') (\<lambda>connection.
     bind (if truthy connection then get connection ''socket'' else get obj ''socket'')
       (\<lambda>socket.
     case header_arguments headers of
       Some ap \<Rightarrow> Inr ap
     | None \<Rightarrow>
     bind (if typeof obj = ''object'' then has ''remoteAddress'' obj else Inr False) (\<lambda>c1.
     if c1 then
       bind (get obj ''remoteAddress'') (\<lambda>a.
       bind (get obj ''remotePort'') (\<lambda>p. Inr (a, p)))
     else
     bind (if typeof obj = ''object''
           then bind (has ''address'' obj) (\<lambda>b. if b then has ''port'' obj else Inr False)
           else Inr False) (\<lambda>c2.
     if c2 then
       bind (get obj ''address'') (\<lambda>a.
       bind (get obj ''port'') (\<lambda>p. Inr (a, p)))
     else
     bind (if typeof connection = ''object'' then has ''remoteAddress'' connection
           else Inr False) (\<lambda>c3.
     if c3 then
       bind (get connection ''remoteAddress'') (\<lambda>a.
       bind (get connection ''remotePort'') (\<lambda>p. Inr (a, p)))
     else
     bind (if typeof socket = ''object'' then has ''remoteAddress'' socket
           else Inr False) (\<lambda>c4.
     if c4 then
       bind (get socket ''remoteAddress'') (\<lambda>a. Inr (a, a))
     else Inr (Undefined, Undefined)))))))"

text \<open>Whether a character occurs in a class of a regular expression.\<close>

fun mentions :: "char \<Rightarrow> regex \<Rightarrow> bool" where
  "mentions c Never = False"
| "mentions c Empty = False"
| "mentions c (Class cs) = (c \<in> set cs)"
| "mentions c (Seq r s) = (mentions c r \<or> mentions c s)"
| "mentions c (Alt r s) = (mentions c r \<or> mentions c s)"
| "mentions c (Many r) = mentions c r"

section \<open>Auxiliary facts\<close>

lemma bind_Inr [simp]: "bind (Inr x) f = f x"
  by (simp add: bind_def)

lemma bind_Inl [simp]: "bind (Inl e) f = Inl e"
  by (simp add: bind_def)

lemma mentions_seq: "mentions c (seq r s) \<Longrightarrow> mentions c r \<or> mentions c s"
  by (simp add: seq_def split: if_splits)

lemma mentions_alt: "mentions c (alt r s) \<Longrightarrow> mentions c r \<or> mentions c s"
  by (simp add: alt_def split: if_splits)

lemma mentions_deriv: "mentions c (deriv a r) \<Longrightarrow> mentions c r"
proof (induction r)
  case (Seq r s)
  then show ?case
    by (auto dest!: mentions_alt mentions_seq split: if_splits)
next
  case (Alt r s)
  then show ?case by (auto dest!: mentions_alt)
next
  case (Many r)
  then show ?case by (auto dest!: mentions_seq)
qed (simp_all split: if_splits)

lemma deriv_unmentioned: "\<not> mentions a r \<Longrightarrow> deriv a r = Never"
  by (induction r) (simp_all add: seq_def alt_def)

lemma matches_Never: "\<not> matches Never s"
  by (induction s) simp_all

lemma matches_mentions: "matches r s \<Longrightarrow> c \<in> set s \<Longrightarrow> mentions c r"
proof (induction s arbitrary: r)
  case Nil
  then show ?case by simp
next
  case (Cons a s)
  show ?case
  proof (cases "c = a")
    case True
    show ?thesis
    proof (rule ccontr)
      assume "\<not> mentions c r"
      then have "deriv a r = Never" using True by (simp add: deriv_unmentioned)
      with Cons.prems(1) show False by (simp add: matches_Never)
    qed
  next
    case False
    with Cons.prems have "matches (deriv a r) s" and "c \<in> set s" by simp_all
    then have "mentions c (deriv a r)" by (rule Cons.IH)
    then show ?thesis by (rule mentions_deriv)
  qed
qed

lemma mentions_repeat [simp]: "mentions c (repeat n r) = (0 < n \<and> mentions c r)"
  by (induction n) auto

lemma mentions_at_most [simp]: "mentions c (at_most n r) = (0 < n \<and> mentions c r)"
  by (induction n) auto

lemma mentions_between [simp]:
  "mentions c (between m n r) = ((0 < m \<or> m < n) \<and> mentions c r)"
  by (auto simp add: between_def)

lemma comma_not_in_IPv4Reg: "\<not> mentions CHR '','' IPv4Reg"
  by (simp add: IPv4Reg_def v4Str_def v4Seg_def digit_def)

lemma comma_not_in_IPv6Reg: "\<not> mentions CHR '','' IPv6Reg"
  by (simp add: IPv6Reg_def v4Str_def v4Seg_def digit_def v6Seg_def colon_def v6SegColon_def
      colonV6Seg_def colonV4Str_def zone_def some_def opt_def)

lemma isIP_no_comma: "isIP s \<noteq> 0 \<Longrightarrow> CHR '','' \<notin> set s"
  using matches_mentions [of IPv4Reg s "CHR '',''"] matches_mentions [of IPv6Reg s "CHR '',''"]
    comma_not_in_IPv4Reg comma_not_in_IPv6Reg
  by (auto simp add: isIP_def isIPv4_def isIPv6_def split: if_splits)

lemma isIP_empty: "isIP [] = 0"
  by code_simp

lemma split_not_Nil: "split sep s \<noteq> []"
  by (induction s) (simp_all split: list.split)

lemma split_no_sep: "sep \<notin> set s \<Longrightarrow> split sep s = [s]"
  by (induction s) auto

lemma shift_split: "shift (split sep s) = Str (takeWhile (\<lambda>c. c \<noteq> sep) s)"
proof (induction s)
  case Nil
  show ?case by (simp add: shift_def)
next
  case (Cons a s)
  then show ?case
    by (cases "split sep s") (simp_all add: shift_def split_not_Nil)
qed

lemma hd_split_valid:
  "list_all (\<lambda>s. isIP s \<noteq> 0) (split sep v) \<Longrightarrow> takeWhile (\<lambda>c. c \<noteq> sep) v \<noteq> []"
proof -
  assume a: "list_all (\<lambda>s. isIP s \<noteq> 0) (split sep v)"
  obtain x xs where x: "split sep v = x # xs"
    using split_not_Nil [of sep v] by (cases "split sep v") auto
  with a have "isIP x \<noteq> 0" by simp
  then have "x \<noteq> []" using isIP_empty by auto
  moreover have "Str x = Str (takeWhile (\<lambda>c. c \<noteq> sep) v)"
    using shift_split [of sep v] x by (simp add: shift_def)
  ultimately show ?thesis by simp
qed

lemma ToNumber_Str [simp]: "ToNumber (Str s) = Inr (StringToNumber s)"
  by simp

lemma Forwarded_Str:
  "Forwarded a (Str s) Undefined =
     Inr \<lparr>Forwarded.ip = (if truthy a then a else Str ''127.0.0.1''), secure = False,
           port = or_zero (StringToNumber s)\<rparr>"
  by (simp add: Forwarded_def)

lemma Forwarded_result:
  "Forwarded a p s = Inr r \<longleftrightarrow>
     (\<exists>n. ToNumber p = Inr n \<and>
          r = \<lparr>Forwarded.ip = (if truthy a then a else Str ''127.0.0.1''), secure = truthy s,
                port = or_zero n\<rparr>)"
  by (cases "ToNumber p") (auto simp add: Forwarded_def)

lemma shift_Str: "xs \<noteq> [] \<Longrightarrow> \<exists>s. shift xs = Str s"
  by (cases xs) (simp_all add: shift_def)

lemma forwarded_loop_find_None:
  "find (\<lambda>p. headers (proxy.ip p) \<noteq> None) ps = None \<Longrightarrow> forwarded_loop ps headers = Inr None"
  by (induction ps) (simp_all split: if_splits)

lemma forwarded_loop_find_Some:
  "find (\<lambda>p. headers (proxy.ip p) \<noteq> None) ps = Some p \<Longrightarrow>
   forwarded_loop ps headers =
     (if list_all (\<lambda>s. isIP s \<noteq> 0) (split CHR '','' (or_empty (headers (proxy.ip p))))
      then bind (Forwarded (shift (split CHR '','' (or_empty (headers (proxy.ip p)))))
                   (shift (split CHR '','' (or_empty (headers (proxy.port p))))) Undefined)
             (\<lambda>r. Inr (Some r))
      else Inr None)"
  by (induction ps) (simp_all add: Let_def split_not_Nil split: if_splits)

lemma forwarded_unmatched: "first_match headers = None \<Longrightarrow> forwarded headers = Inr None"
  by (simp add: first_match_def forwarded_def forwarded_loop_find_None)

lemma forwarded_matched:
  "first_match headers = Some p \<Longrightarrow>
   forwarded headers =
     (if list_all (\<lambda>s. isIP s \<noteq> 0) (split CHR '','' (or_empty (headers (proxy.ip p))))
      then bind (Forwarded (shift (split CHR '','' (or_empty (headers (proxy.ip p)))))
                   (shift (split CHR '','' (or_empty (headers (proxy.port p))))) Undefined)
             (\<lambda>r. Inr (Some r))
      else Inr None)"
  by (simp add: first_match_def forwarded_def forwarded_loop_find_Some)

text \<open>The search of the headers passes a string as port, so it never throws.\<close>

lemma forwarded_header_arguments:
  "forwarded headers =
     (case header_arguments headers of
        None \<Rightarrow> Inr None
      | Some (a, p) \<Rightarrow> bind (Forwarded a p Undefined) (\<lambda>r. Inr (Some r)))"
  by (cases "first_match headers")
    (simp_all add: header_arguments_def forwarded_unmatched forwarded_matched)

lemma header_arguments_Str:
  "header_arguments headers = Some (a, p) \<Longrightarrow> \<exists>s. p = Str s"
  using shift_Str [OF split_not_Nil]
  by (auto simp add: header_arguments_def split: option.splits if_splits)

lemma forwarded_returns: "\<exists>x. forwarded headers = Inr x"
proof (cases "header_arguments headers")
  case None
  then show ?thesis by (simp add: forwarded_header_arguments)
next
  case (Some ap)
  obtain a p where ap: "ap = (a, p)" by (cases ap)
  obtain s where "p = Str s" using header_arguments_Str Some ap by blast
  then show ?thesis
    using Some ap by (simp add: forwarded_header_arguments Forwarded_Str)
qed

lemma tail_bind: "(\<And>x. f x = bind (g x) h) \<Longrightarrow> bind m f = bind (bind m g) h"
  by (cases m) simp_all

lemma tail_if:
  "A = bind A' h \<Longrightarrow> B = bind B' h \<Longrightarrow> (if c then A else B) = bind (if c then A' else B') h"
  by simp

lemma parse_arguments:
  "parse obj headers whitelist =
     bind (arguments obj headers) (\<lambda>(a, p). Forwarded a p Undefined)"
proof (cases "header_arguments headers")
  case None
  then have f: "forwarded headers = Inr None"
    by (simp add: forwarded_header_arguments)
  show ?thesis
    unfolding parse_def arguments_def None f bind_Inr option.case
    by (intro tail_bind tail_if) simp_all
next
  case (Some ap)
  obtain a p where ap: "ap = (a, p)" by (cases ap)
  obtain s where p: "p = Str s" using header_arguments_Str Some ap by blast
  have f: "forwarded headers = Inr (Some
      \<lparr>Forwarded.ip = (if truthy a then a else Str ''127.0.0.1''), secure = False,
        port = or_zero (StringToNumber s)\<rparr>)"
    using Some ap p by (simp add: forwarded_header_arguments Forwarded_Str)
  show ?thesis
    unfolding parse_def arguments_def Some ap p f bind_Inr option.case
    by (intro tail_bind) (simp add: Forwarded_Str)
qed

lemma get_truthy: "truthy v \<Longrightarrow> \<exists>x. get v k = Inr x"
  by (cases v) simp_all

lemma parse_proxied:
  "forwarded headers = Inr (Some r) \<Longrightarrow> parse (Obj fs) headers whitelist = Inr r"
proof -
  assume r: "forwarded headers = Inr (Some r)"
  obtain connection where c: "get (Obj fs) ''connection'' = Inr connection" by simp
  obtain socket where
    s: "(if truthy connection then get connection ''socket'' else get (Obj fs) ''socket'') = Inr socket"
    using get_truthy [of connection "''socket''"] by (cases "truthy connection") auto
  show ?thesis
    unfolding parse_def r bind_Inr c s by simp
qed

lemma parse_unproxied:
  "forwarded headers = Inr None \<Longrightarrow>
   parse obj headers whitelist = parse obj Map.empty whitelist'"
  by (simp add: parse_def forwarded_def proxies_def)

lemma or_zero_not_NaN: "or_zero n \<noteq> NaN"
  by (simp add: or_zero_def)

lemma or_zero_eq: "or_zero n = (if n = NaN then Finite 0 else n)"
  by (auto simp add: or_zero_def)

text \<open>Every result is built by \<open>Forwarded\<close> from the arguments, with no third argument.\<close>

lemma parse_built:
  "parse obj headers whitelist = Inr r \<Longrightarrow>
   \<exists>a p. arguments obj headers = Inr (a, p) \<and> Forwarded a p Undefined = Inr r"
  by (cases "arguments obj headers") (auto simp add: parse_arguments)

lemma guarded_has:
  "v \<noteq> Null \<Longrightarrow>
   (if typeof v = ''object'' then has k v else Inr False) =
     Inr (case v of Obj fs \<Rightarrow> map_of fs k \<noteq> None | _ \<Rightarrow> False)"
  by (cases v) simp_all

lemma parse_socket_stage:
  assumes "forwarded headers = Inr None"
    and "map_of fs ''remoteAddress'' = None"
    and "map_of fs ''address'' = None \<or> map_of fs ''port'' = None"
    and "get (Obj fs) ''connection'' = Inr connection"
    and "connection \<noteq> Null"
    and "has ''remoteAddress'' connection \<noteq> Inr True"
    and "(if truthy connection then get connection ''socket'' else get (Obj fs) ''socket'') = Inr socket"
  shows "parse (Obj fs) headers whitelist =
     bind (if typeof socket = ''object'' then has ''remoteAddress'' socket else Inr False)
       (\<lambda>c4. if c4 then bind (get socket ''remoteAddress'') (\<lambda>a. Forwarded a a Undefined)
             else Forwarded Undefined Undefined Undefined)"
proof -
  have c3: "(if typeof connection = ''object'' then has ''remoteAddress'' connection else Inr False)
      = Inr False"
    using assms(5,6) by (cases connection) simp_all
  have c2: "bind (has ''address'' (Obj fs)) (\<lambda>b. if b then has ''port'' (Obj fs) else Inr False)
      = Inr False"
    using assms(3) by auto
  show ?thesis
    unfolding parse_def assms(1) assms(4) bind_Inr assms(7)
    using assms(2) c2 c3 by simp
qed

text \<open>The values of \<open>net.isIP\<close> and of \<open>StringToNumber\<close> on the strings of the examples.\<close>

lemma isIP_not_an_ip: "isIP ''not-an-ip'' = 0"
  by code_simp

lemma isIP_1_2_3_4: "isIP ''1.2.3.4'' = 4"
  by code_simp

lemma isIP_203_0_113_5: "isIP ''203.0.113.5'' = 4"
  by code_simp

lemma isIP_10_0_0_1: "isIP ''10.0.0.1'' = 4"
  by code_simp

lemma isIP_space_10_0_0_1: "isIP '' 10.0.0.1'' = 0"
  by code_simp

lemma isIP_loopback6: "isIP ''::1'' = 6"
  by code_simp

lemma isIP_zone: "isIP ''fe80::1%eth0'' = 6"
  by code_simp

lemma isIP_256: "isIP ''256.1.1.1'' = 0"
  by code_simp

lemma StringToNumber_ties_to_even:
  "StringToNumber ''9007199254740993'' = Finite 9007199254740992"
  by code_simp

lemma StringToNumber_hex: "StringToNumber ''0x1F'' = Finite 31"
  by code_simp

lemma StringToNumber_443: "StringToNumber ''443'' = Finite 443"
  by code_simp

lemma StringToNumber_8080: "StringToNumber ''8080'' = Finite 8080"
  by code_simp

lemma StringToNumber_10_1_1_2: "StringToNumber ''10.1.1.2'' = NaN"
  by code_simp

lemma StringToNumber_minus_1_5: "StringToNumber ''-1.5'' = Finite (- 3 / 2)"
  by code_simp

lemma StringToNumber_https: "StringToNumber ''https'' = NaN"
  by code_simp

section \<open>The properties\<close>

text \<open>
  C1. When the value of the first present proxy header fails validation (some
  comma-separated piece of it is no IP address), \<open>forwarded\<close> yields nothing: it does
  not go on to a later entry of \<open>proxies\<close>, and \<open>parse\<close> gives what it gives with no
  headers at all, the result of the transport fallback.
\<close>

theorem invalid_header_does_not_cascade:
  assumes "first_match headers = Some p"
    and "\<not> list_all (\<lambda>s. isIP s \<noteq> 0) (split CHR '','' (or_empty (headers (proxy.ip p))))"
  shows "forwarded headers = Inr None \<and>
         parse obj headers whitelist = parse obj Map.empty whitelist"
proof -
  have "forwarded headers = Inr None"
    using assms by (simp add: forwarded_matched)
  then show ?thesis
    using parse_unproxied [of headers obj whitelist whitelist] by simp
qed

text \<open>
  With \<open>x-forwarded-for: not-an-ip\<close> and a valid \<open>z-forwarded-for\<close>, the address is the
  connection's.
\<close>

theorem invalid_header_does_not_cascade_witness:
  "forwarded [''x-forwarded-for'' \<mapsto> ''not-an-ip'', ''z-forwarded-for'' \<mapsto> ''1.2.3.4'']
     = Inr None \<and>
   parse (Obj [(''remoteAddress'', Str ''192.168.1.10''), (''remotePort'', Num (Finite 5000))])
     [''x-forwarded-for'' \<mapsto> ''not-an-ip'', ''z-forwarded-for'' \<mapsto> ''1.2.3.4''] Undefined
   = Inr \<lparr>Forwarded.ip = Str ''192.168.1.10'', secure = False, port = Finite 5000\<rparr>"
proof -
  let ?h = "[''x-forwarded-for'' \<mapsto> ''not-an-ip'', ''z-forwarded-for'' \<mapsto> ''1.2.3.4'']"
  let ?p = "\<lparr>proxy.ip = ''x-forwarded-for'', proxy.port = ''x-forwarded-port'',
        proxy.proto = Some ''x-forwarded-proto''\<rparr>"
  have m: "first_match ?h = Some ?p"
    by (simp add: first_match_def proxies_def)
  have v: "\<not> list_all (\<lambda>s. isIP s \<noteq> 0) (split CHR '','' (or_empty (?h (proxy.ip ?p))))"
    by (simp add: or_empty_def isIP_not_an_ip)
  let ?o = "Obj [(''remoteAddress'', Str ''192.168.1.10''), (''remotePort'', Num (Finite 5000))]"
  have t: "parse ?o Map.empty Undefined
    = Inr \<lparr>Forwarded.ip = Str ''192.168.1.10'', secure = False, port = Finite 5000\<rparr>"
    by (simp add: parse_def forwarded_def proxies_def Forwarded_def or_zero_def)
  have "forwarded ?h = Inr None \<and> parse ?o ?h Undefined = parse ?o Map.empty Undefined"
    by (rule invalid_header_does_not_cascade [OF m v])
  then show ?thesis
    unfolding t .
qed

text \<open>
  C2. With \<open>x-forwarded-for: 203.0.113.5, 10.0.0.1\<close> and \<open>x-forwarded-port: 443,8080\<close>
  the first hop \<open>203.0.113.5\<close> with port \<open>443\<close> is not what \<open>parse\<close> returns: splitting on
  the comma alone leaves the second piece with its leading space, \<open>net.isIP\<close> rejects it,
  and the whole header is dropped; the result is the connection's address.
\<close>

theorem spaced_hop_list_is_dropped:
  "forwarded [''x-forwarded-for'' \<mapsto> ''203.0.113.5, 10.0.0.1'',
              ''x-forwarded-port'' \<mapsto> ''443,8080''] = Inr None \<and>
   parse (Obj [(''remoteAddress'', Str ''10.0.0.1''), (''remotePort'', Num (Finite 51234))])
     [''x-forwarded-for'' \<mapsto> ''203.0.113.5, 10.0.0.1'', ''x-forwarded-port'' \<mapsto> ''443,8080'']
     Undefined
   = Inr \<lparr>Forwarded.ip = Str ''10.0.0.1'', secure = False, port = Finite 51234\<rparr>"
  by (simp add: parse_def forwarded_def proxies_def or_empty_def isIP_203_0_113_5
      isIP_space_10_0_0_1 Forwarded_def or_zero_def)

text \<open>The same list written without the space resolves to its first hop.\<close>

lemma unspaced_hop_list_first_hop:
  "parse (Obj [(''remoteAddress'', Str ''10.0.0.1''), (''remotePort'', Num (Finite 51234))])
     [''x-forwarded-for'' \<mapsto> ''203.0.113.5,10.0.0.1'', ''x-forwarded-port'' \<mapsto> ''443,8080'']
     Undefined
   = Inr \<lparr>Forwarded.ip = Str ''203.0.113.5'', secure = False, port = Finite 443\<rparr>"
  by (simp add: parse_def forwarded_def proxies_def or_empty_def isIP_203_0_113_5
      isIP_10_0_0_1 Forwarded_def or_zero_def shift_def StringToNumber_443)

text \<open>
  C3. With a valid single address in \<open>x-forwarded-for\<close>, \<open>parse\<close> returns that address for
  every connection object; the port is the number read from \<open>x-forwarded-port\<close> up to its
  first comma (\<open>0\<close> when the header is absent or reads as \<open>NaN\<close> or \<open>0\<close>), and the
  connection object has no part in the result.
\<close>

theorem single_hop_x_forwarded_for:
  assumes "headers ''x-forwarded-for'' = Some v"
    and "isIP v \<noteq> 0"
  shows "parse (Obj fs) headers whitelist =
           Inr \<lparr>Forwarded.ip = Str v, secure = False,
                 port = or_zero (StringToNumber
                   (takeWhile (\<lambda>c. c \<noteq> CHR '','') (or_empty (headers ''x-forwarded-port''))))\<rparr>
         \<and> parse (Obj fs) headers whitelist = parse (Obj fs') headers whitelist"
proof -
  let ?p = "\<lparr>proxy.ip = ''x-forwarded-for'', proxy.port = ''x-forwarded-port'',
        proxy.proto = Some ''x-forwarded-proto''\<rparr>"
  have m: "first_match headers = Some ?p"
    using assms(1) by (simp add: first_match_def proxies_def)
  have one: "split CHR '','' v = [v]"
    using assms(2) by (simp add: isIP_no_comma split_no_sep)
  have ne: "v \<noteq> []"
    using assms(2) isIP_empty by auto
  have sh: "shift [v] = Str v"
    by (simp add: shift_def)
  have "forwarded headers =
      Inr (Some \<lparr>Forwarded.ip = Str v, secure = False,
                 port = or_zero (StringToNumber
                   (takeWhile (\<lambda>c. c \<noteq> CHR '','') (or_empty (headers ''x-forwarded-port''))))\<rparr>)"
    using assms ne
    by (simp add: forwarded_matched [OF m] or_empty_def one sh shift_split Forwarded_Str)
  then have "\<And>gs. parse (Obj gs) headers whitelist =
      Inr \<lparr>Forwarded.ip = Str v, secure = False,
            port = or_zero (StringToNumber
              (takeWhile (\<lambda>c. c \<noteq> CHR '','') (or_empty (headers ''x-forwarded-port''))))\<rparr>"
    by (rule parse_proxied)
  then show ?thesis by simp
qed

theorem single_hop_x_forwarded_for_witness:
  "isIP ''203.0.113.5'' \<noteq> 0 \<and>
   parse (Obj [(''remoteAddress'', Str ''10.0.0.1''), (''remotePort'', Num (Finite 51234))])
     [''x-forwarded-for'' \<mapsto> ''203.0.113.5'', ''x-forwarded-port'' \<mapsto> ''8080''] Undefined
   = Inr \<lparr>Forwarded.ip = Str ''203.0.113.5'', secure = False, port = Finite 8080\<rparr>"
proof -
  let ?h = "[''x-forwarded-for'' \<mapsto> ''203.0.113.5'', ''x-forwarded-port'' \<mapsto> ''8080'']"
  have a: "?h ''x-forwarded-for'' = Some ''203.0.113.5''" by simp
  have b: "isIP ''203.0.113.5'' \<noteq> 0" by (simp add: isIP_203_0_113_5)
  have c: "or_zero (StringToNumber
      (takeWhile (\<lambda>c. c \<noteq> CHR '','') (or_empty (?h ''x-forwarded-port'')))) = Finite 8080"
    by (simp add: or_empty_def StringToNumber_8080 or_zero_def)
  show ?thesis
    using single_hop_x_forwarded_for [where headers = ?h and v = "''203.0.113.5''", OF a b] b
    unfolding c by blast
qed

text \<open>
  C4. \<open>parse\<close> does throw: \<open>typeof null\<close> is \<open>'object'\<close>, so for a connection object whose
  \<open>connection\<close> is \<open>null\<close> the guard \<open>'object' === typeof connection\<close> lets
  \<open>'remoteAddress' in connection\<close> run on \<open>null\<close>, a \<open>TypeError\<close>.
\<close>

theorem null_connection_throws:
  "parse (Obj [(''connection'', Null)]) Map.empty Undefined = Inl TypeError"
  by (simp add: parse_def forwarded_def proxies_def)

text \<open>
  Where neither \<open>obj.connection\<close> nor the socket derived from it is \<open>null\<close>, \<open>parse\<close>
  reaches a call of \<open>Forwarded\<close>, whatever the headers and the other fields are; the call
  returns unless the value passed as port is an object with an own \<open>toString\<close>.
\<close>

lemma arguments_returns:
  assumes "get (Obj fs) ''connection'' = Inr connection"
    and "connection \<noteq> Null"
    and "(if truthy connection then get connection ''socket'' else get (Obj fs) ''socket'') = Inr socket"
    and "socket \<noteq> Null"
  shows "\<exists>ap. arguments (Obj fs) headers = Inr ap"
proof -
  have c3: "(if typeof connection = ''object'' then has ''remoteAddress'' connection else Inr False)
      = Inr (case connection of Obj gs \<Rightarrow> map_of gs ''remoteAddress'' \<noteq> None | _ \<Rightarrow> False)"
    using assms(2) by (rule guarded_has)
  have c4: "(if typeof socket = ''object'' then has ''remoteAddress'' socket else Inr False)
      = Inr (case socket of Obj gs \<Rightarrow> map_of gs ''remoteAddress'' \<noteq> None | _ \<Rightarrow> False)"
    using assms(4) by (rule guarded_has)
  have g: "get v k = Inr (case v of Obj gs \<Rightarrow> (case map_of gs k of None \<Rightarrow> Undefined | Some x \<Rightarrow> x)
                                 | _ \<Rightarrow> Undefined)"
    if "(case v of Obj gs \<Rightarrow> map_of gs ''remoteAddress'' \<noteq> None | _ \<Rightarrow> False)" for v k
    using that by (cases v) simp_all
  show ?thesis
    unfolding arguments_def assms(1) bind_Inr assms(3) c3 c4
    by (simp add: g split: option.split)
qed

lemma Forwarded_returns:
  "(\<And>gs. p = Obj gs \<Longrightarrow> map_of gs ''toString'' = None) \<Longrightarrow> \<exists>r. Forwarded a p s = Inr r"
  by (cases p) (simp_all add: Forwarded_def)

lemma parse_returns:
  assumes "get (Obj fs) ''connection'' = Inr connection"
    and "connection \<noteq> Null"
    and "(if truthy connection then get connection ''socket'' else get (Obj fs) ''socket'') = Inr socket"
    and "socket \<noteq> Null"
  shows "\<exists>a p. arguments (Obj fs) headers = Inr (a, p) \<and>
           parse (Obj fs) headers whitelist = Forwarded a p Undefined"
  using arguments_returns [OF assms, of headers] by (auto simp add: parse_arguments)

text \<open>The other way \<open>parse\<close> throws: a port whose conversion to a number throws.\<close>

lemma port_with_own_toString_throws:
  "parse (Obj [(''remoteAddress'', Str ''10.0.0.1''),
               (''remotePort'', Obj [(''toString'', Num (Finite 1))])]) Map.empty Undefined
     = Inl TypeError"
  by (simp add: parse_def forwarded_def proxies_def Forwarded_def)

text \<open>
  C5. When the search of the headers gives nothing, the object has no \<open>remoteAddress\<close>
  and not both \<open>address\<close> and \<open>port\<close>, its \<open>connection\<close> is not \<open>null\<close> and exposes no
  \<open>remoteAddress\<close>, and the derived socket (\<open>connection.socket\<close> if \<open>connection\<close> is truthy,
  else \<open>obj.socket\<close>) is an object with a \<open>remoteAddress\<close>, \<open>parse\<close> is the call of
  \<open>Forwarded\<close> with that one value \<open>a\<close> as both the \<open>ip\<close> and the \<open>port\<close> argument. So it
  throws when \<open>+a\<close> throws, and else returns \<open>a\<close> (the loopback address if \<open>a\<close> is falsy)
  with the number \<open>+a\<close> as port, \<open>0\<close> when that is \<open>NaN\<close>. For an address string \<open>s\<close> the
  port is \<open>StringToNumber s\<close>, \<open>0\<close> when that is \<open>NaN\<close>.
\<close>

theorem socket_fallback_passes_remoteAddress_twice:
  assumes "forwarded headers = Inr None"
    and "map_of fs ''remoteAddress'' = None"
    and "map_of fs ''address'' = None \<or> map_of fs ''port'' = None"
    and "get (Obj fs) ''connection'' = Inr connection"
    and "connection \<noteq> Null"
    and "has ''remoteAddress'' connection \<noteq> Inr True"
    and "(if truthy connection then get connection ''socket'' else get (Obj fs) ''socket'')
           = Inr (Obj sfs)"
    and "map_of sfs ''remoteAddress'' = Some a"
  shows "parse (Obj fs) headers whitelist = Forwarded a a Undefined \<and>
         parse (Obj fs) headers whitelist =
           (case ToNumber a of
              Inl e \<Rightarrow> Inl e
            | Inr n \<Rightarrow>
                Inr \<lparr>Forwarded.ip = (if truthy a then a else Str ''127.0.0.1''), secure = False,
                      port = (if n = NaN then Finite 0 else n)\<rparr>) \<and>
         (a = Str s \<longrightarrow>
            parse (Obj fs) headers whitelist =
              Inr \<lparr>Forwarded.ip = Str (if s = [] then ''127.0.0.1'' else s), secure = False,
                    port = (if StringToNumber s = NaN then Finite 0 else StringToNumber s)\<rparr>)"
proof -
  have p: "parse (Obj fs) headers whitelist = Forwarded a a Undefined"
    using assms(8) by (simp add: parse_socket_stage [OF assms(1-7)])
  have u: "Forwarded a a Undefined =
      (case ToNumber a of
         Inl e \<Rightarrow> Inl e
       | Inr n \<Rightarrow>
           Inr \<lparr>Forwarded.ip = (if truthy a then a else Str ''127.0.0.1''), secure = False,
                 port = (if n = NaN then Finite 0 else n)\<rparr>)"
    by (cases "ToNumber a") (simp_all add: Forwarded_def or_zero_eq)
  show ?thesis
    unfolding p using u by auto
qed

text \<open>
  Two sockets: the address \<open>10.1.1.2\<close> reads as \<open>NaN\<close> and gives port \<open>0\<close>; the address
  \<open>8080\<close> reads as a number and gives port \<open>8080\<close>.
\<close>

theorem socket_fallback_passes_remoteAddress_twice_witness:
  "parse (Obj [(''connection'', Obj [(''socket'', Obj [(''remoteAddress'', Str ''10.1.1.2'')])])])
     Map.empty Undefined
   = Inr \<lparr>Forwarded.ip = Str ''10.1.1.2'', secure = False, port = Finite 0\<rparr> \<and>
   parse (Obj [(''socket'', Obj [(''remoteAddress'', Str ''8080'')])]) Map.empty Undefined
   = Inr \<lparr>Forwarded.ip = Str ''8080'', secure = False, port = Finite 8080\<rparr>"
proof -
  have 1: "forwarded Map.empty = Inr None" by (simp add: forwarded_def proxies_def)
  let ?s = "[(''remoteAddress'', Str ''10.1.1.2'')]"
  let ?c = "Obj [(''socket'', Obj ?s)]"
  let ?fs = "[(''connection'', ?c)]"
  have a2: "map_of ?fs ''remoteAddress'' = None" by simp
  have a3: "map_of ?fs ''address'' = None \<or> map_of ?fs ''port'' = None" by simp
  have a4: "get (Obj ?fs) ''connection'' = Inr ?c" by simp
  have a5: "?c \<noteq> Null" by simp
  have a6: "has ''remoteAddress'' ?c \<noteq> Inr True" by simp
  have a7: "(if truthy ?c then get ?c ''socket'' else get (Obj ?fs) ''socket'') = Inr (Obj ?s)"
    by simp
  have a8: "map_of ?s ''remoteAddress'' = Some (Str ''10.1.1.2'')" by simp
  have "parse (Obj ?fs) Map.empty Undefined
      = Inr \<lparr>Forwarded.ip = Str (if ''10.1.1.2'' = [] then ''127.0.0.1'' else ''10.1.1.2''),
              secure = False,
              port = (if StringToNumber ''10.1.1.2'' = NaN then Finite 0
                      else StringToNumber ''10.1.1.2'')\<rparr>"
    using socket_fallback_passes_remoteAddress_twice [OF 1 a2 a3 a4 a5 a6 a7 a8,
        of Undefined "''10.1.1.2''"]
    by blast
  then have a: "parse (Obj ?fs) Map.empty Undefined
      = Inr \<lparr>Forwarded.ip = Str ''10.1.1.2'', secure = False, port = Finite 0\<rparr>"
    by (simp add: StringToNumber_10_1_1_2)
  let ?t = "[(''remoteAddress'', Str ''8080'')]"
  let ?gs = "[(''socket'', Obj ?t)]"
  have b2: "map_of ?gs ''remoteAddress'' = None" by simp
  have b3: "map_of ?gs ''address'' = None \<or> map_of ?gs ''port'' = None" by simp
  have b4: "get (Obj ?gs) ''connection'' = Inr Undefined" by simp
  have b5: "Undefined \<noteq> Null" by simp
  have b6: "has ''remoteAddress'' Undefined \<noteq> Inr True" by simp
  have b7: "(if truthy Undefined then get Undefined ''socket'' else get (Obj ?gs) ''socket'')
      = Inr (Obj ?t)"
    by simp
  have b8: "map_of ?t ''remoteAddress'' = Some (Str ''8080'')" by simp
  have "parse (Obj ?gs) Map.empty Undefined
      = Inr \<lparr>Forwarded.ip = Str (if ''8080'' = [] then ''127.0.0.1'' else ''8080''),
              secure = False,
              port = (if StringToNumber ''8080'' = NaN then Finite 0
                      else StringToNumber ''8080'')\<rparr>"
    using socket_fallback_passes_remoteAddress_twice [OF 1 b2 b3 b4 b5 b6 b7 b8,
        of Undefined "''8080''"]
    by blast
  then have b: "parse (Obj ?gs) Map.empty Undefined
      = Inr \<lparr>Forwarded.ip = Str ''8080'', secure = False, port = Finite 8080\<rparr>"
    by (simp add: StringToNumber_8080)
  show ?thesis
    using a b by (rule conjI)
qed

text \<open>
  C6 as stated fails: the port is not confined to the non-negative integers. A header
  \<open>x-forwarded-port: -1.5\<close> gives the port \<open>-1.5\<close>.
\<close>

theorem port_negative_fraction:
  "parse (Obj []) [''x-forwarded-for'' \<mapsto> ''1.2.3.4'', ''x-forwarded-port'' \<mapsto> ''-1.5''] Undefined
   = Inr \<lparr>Forwarded.ip = Str ''1.2.3.4'', secure = False, port = Finite (- 3 / 2)\<rparr>"
  by (simp add: parse_def forwarded_def proxies_def or_empty_def isIP_1_2_3_4 Forwarded_def
      or_zero_def shift_def StringToNumber_minus_1_5)

text \<open>
  C6, as the code has it. Whenever \<open>parse\<close> returns a result, its port is a number and
  never \<open>NaN\<close>: it is the numeric coercion \<open>+p\<close> of the value \<open>p\<close> that \<open>parse\<close> passes as
  port (\<open>arguments\<close>: the first piece of the matched port header, \<open>obj.remotePort\<close>,
  \<open>obj.port\<close>, \<open>connection.remotePort\<close>, the socket's \<open>remoteAddress\<close>, or nothing), with
  \<open>0\<close> in place of \<open>NaN\<close>.
\<close>

theorem port_is_the_coerced_port_argument:
  assumes "parse obj headers whitelist = Inr r"
  shows "\<exists>a p n. arguments obj headers = Inr (a, p) \<and> ToNumber p = Inr n \<and>
           Forwarded.port r = (if n = NaN then Finite 0 else n) \<and> Forwarded.port r \<noteq> NaN"
proof -
  obtain a p where ap: "arguments obj headers = Inr (a, p)" and f: "Forwarded a p Undefined = Inr r"
    using parse_built [OF assms] by blast
  obtain n where n: "ToNumber p = Inr n" and r: "Forwarded.port r = or_zero n"
    using f by (auto simp add: Forwarded_result)
  show ?thesis
    using ap n r by (auto simp add: or_zero_eq)
qed

text \<open>
  An unparsable port header gives port \<open>0\<close>; with no header, the number \<open>5000\<close> of
  \<open>obj.remotePort\<close> is the port.
\<close>

theorem port_is_the_coerced_port_argument_witness:
  "parse (Obj []) [''x-forwarded-for'' \<mapsto> ''1.2.3.4'', ''x-forwarded-port'' \<mapsto> ''https''] Undefined
     = Inr \<lparr>Forwarded.ip = Str ''1.2.3.4'', secure = False, port = Finite 0\<rparr> \<and>
   arguments (Obj []) [''x-forwarded-for'' \<mapsto> ''1.2.3.4'', ''x-forwarded-port'' \<mapsto> ''https'']
     = Inr (Str ''1.2.3.4'', Str ''https'') \<and>
   ToNumber (Str ''https'') = Inr NaN \<and>
   parse (Obj [(''remoteAddress'', Str ''192.168.1.10''), (''remotePort'', Num (Finite 5000))])
     Map.empty Undefined
     = Inr \<lparr>Forwarded.ip = Str ''192.168.1.10'', secure = False, port = Finite 5000\<rparr> \<and>
   arguments (Obj [(''remoteAddress'', Str ''192.168.1.10''), (''remotePort'', Num (Finite 5000))])
     Map.empty
     = Inr (Str ''192.168.1.10'', Num (Finite 5000)) \<and>
   ToNumber (Num (Finite 5000)) = Inr (Finite 5000)"
proof -
  let ?h = "[''x-forwarded-for'' \<mapsto> ''1.2.3.4'', ''x-forwarded-port'' \<mapsto> ''https'']"
  let ?o = "Obj [(''remoteAddress'', Str ''192.168.1.10''), (''remotePort'', Num (Finite 5000))]"
  have a1: "arguments (Obj []) ?h = Inr (Str ''1.2.3.4'', Str ''https'')"
    by (simp add: arguments_def header_arguments_def first_match_def proxies_def or_empty_def
        isIP_1_2_3_4 shift_def)
  have a2: "arguments ?o Map.empty = Inr (Str ''192.168.1.10'', Num (Finite 5000))"
    by (simp add: arguments_def header_arguments_def first_match_def proxies_def)
  obtain r1 where r1: "parse (Obj []) ?h Undefined = Inr r1"
    by (simp add: parse_arguments a1 Forwarded_Str)
  obtain r2 where r2: "parse ?o Map.empty Undefined = Inr r2"
    by (simp add: parse_arguments a2 Forwarded_def)
  have p1: "Forwarded.port r1 = Finite 0"
    using port_is_the_coerced_port_argument [OF r1] a1 by (auto simp add: StringToNumber_https)
  have p2: "Forwarded.port r2 = Finite 5000"
    using port_is_the_coerced_port_argument [OF r2] a2 by auto
  have e1: "parse (Obj []) ?h Undefined
      = Inr \<lparr>Forwarded.ip = Str ''1.2.3.4'', secure = False, port = Forwarded.port r1\<rparr>"
    using r1 by (auto simp add: parse_arguments a1 Forwarded_Str)
  have e2: "parse ?o Map.empty Undefined
      = Inr \<lparr>Forwarded.ip = Str ''192.168.1.10'', secure = False, port = Forwarded.port r2\<rparr>"
    using r2 by (auto simp add: parse_arguments a2 Forwarded_def)
  show ?thesis
    using e1 e2 a1 a2 unfolding p1 p2 by (simp add: StringToNumber_https)
qed

text \<open>
  C7. Every result of \<open>parse\<close> has \<open>secure = False\<close>: each call of \<open>Forwarded\<close> leaves the
  third argument out.
\<close>

theorem secure_is_always_false:
  assumes "parse obj headers whitelist = Inr r"
  shows "secure r = False"
  using parse_built [OF assms] by (auto simp add: Forwarded_result)

theorem secure_is_always_false_witness:
  "parse (Obj [(''remoteAddress'', Str ''192.168.1.10''), (''remotePort'', Num (Finite 5000))])
     [''x-forwarded-for'' \<mapsto> ''1.2.3.4'', ''x-forwarded-proto'' \<mapsto> ''https''] Undefined
   = Inr \<lparr>Forwarded.ip = Str ''1.2.3.4'', secure = False, port = Finite 0\<rparr> \<and>
   secure \<lparr>Forwarded.ip = Str ''1.2.3.4'', secure = False, port = Finite 0\<rparr> = False"
proof -
  have e: "parse (Obj [(''remoteAddress'', Str ''192.168.1.10''), (''remotePort'', Num (Finite 5000))])
     [''x-forwarded-for'' \<mapsto> ''1.2.3.4'', ''x-forwarded-proto'' \<mapsto> ''https''] Undefined
   = Inr \<lparr>Forwarded.ip = Str ''1.2.3.4'', secure = False, port = Finite 0\<rparr>"
    by (simp add: parse_def forwarded_def proxies_def or_empty_def isIP_1_2_3_4 Forwarded_def
        or_zero_def shift_def StringToNumber_def trim_def)
  show ?thesis
    using secure_is_always_false [OF e] e by simp
qed

text \<open>
  C8. An object that exposes none of the recognised fields does not always get the default
  result: with \<open>socket: null\<close> (and no headers) the guard \<open>'object' === typeof socket\<close>
  passes and \<open>'remoteAddress' in socket\<close> throws.
\<close>

theorem null_socket_throws:
  "parse (Obj [(''socket'', Null)]) Map.empty Undefined = Inl TypeError"
  by (simp add: parse_def forwarded_def proxies_def)

text \<open>
  With no header matched, no \<open>remoteAddress\<close>, not both \<open>address\<close> and \<open>port\<close>, and a
  \<open>connection\<close> and a derived socket that are not \<open>null\<close> and expose no \<open>remoteAddress\<close>,
  the result is the default one.
\<close>

lemma parse_default:
  assumes "forwarded headers = Inr None"
    and "map_of fs ''remoteAddress'' = None"
    and "map_of fs ''address'' = None \<or> map_of fs ''port'' = None"
    and "get (Obj fs) ''connection'' = Inr connection"
    and "connection \<noteq> Null"
    and "has ''remoteAddress'' connection \<noteq> Inr True"
    and "(if truthy connection then get connection ''socket'' else get (Obj fs) ''socket'')
           = Inr socket"
    and "socket \<noteq> Null"
    and "has ''remoteAddress'' socket \<noteq> Inr True"
  shows "parse (Obj fs) headers whitelist
           = Inr \<lparr>Forwarded.ip = Str ''127.0.0.1'', secure = False, port = Finite 0\<rparr>"
proof -
  have "(if typeof socket = ''object'' then has ''remoteAddress'' socket else Inr False) = Inr False"
    using assms(8,9) by (cases socket) simp_all
  then show ?thesis
    by (simp add: parse_socket_stage [OF assms(1-7)] Forwarded_def or_zero_def)
qed

lemma parse_empty_object:
  "parse (Obj []) Map.empty whitelist
     = Inr \<lparr>Forwarded.ip = Str ''127.0.0.1'', secure = False, port = Finite 0\<rparr>"
  by (simp add: parse_def forwarded_def proxies_def Forwarded_def or_zero_def)

text \<open>
  C9. The whitelist has no part in the result: \<open>parse\<close> hands it to \<open>forwarded\<close>, which
  declares no such parameter, and reads it nowhere else.
\<close>

theorem whitelist_is_ignored:
  "parse obj headers whitelist = parse obj headers whitelist'"
  by (simp add: parse_def)

text \<open>
  C10. When every comma-separated piece of the first present proxy header is an IP
  address and the port header of that entry is absent or empty, \<open>parse\<close> returns the first
  piece with port \<open>0\<close>.
\<close>

theorem absent_port_header_gives_port_0:
  assumes "first_match headers = Some p"
    and "headers (proxy.ip p) = Some v"
    and "list_all (\<lambda>s. isIP s \<noteq> 0) (split CHR '','' v)"
    and "headers (proxy.port p) = None \<or> headers (proxy.port p) = Some []"
  shows "parse (Obj fs) headers whitelist
           = Inr \<lparr>Forwarded.ip = Str (takeWhile (\<lambda>c. c \<noteq> CHR '','') v), secure = False,
                  port = Finite 0\<rparr>"
proof -
  have e: "or_empty (headers (proxy.port p)) = []"
    using assms(4) by (auto simp add: or_empty_def)
  have z: "StringToNumber [] = Finite 0"
    by (simp add: StringToNumber_def trim_def)
  have ne: "takeWhile (\<lambda>c. c \<noteq> CHR '','') v \<noteq> []"
    using assms(3) by (rule hd_split_valid)
  have sh: "shift [[]] = Str []"
    by (simp add: shift_def)
  have i: "or_empty (headers (proxy.ip p)) = v"
    using assms(2) by (simp add: or_empty_def)
  have "forwarded headers =
      Inr (Some \<lparr>Forwarded.ip = Str (takeWhile (\<lambda>c. c \<noteq> CHR '','') v), secure = False,
                 port = Finite 0\<rparr>)"
    using assms(3) ne
    by (simp add: forwarded_matched [OF assms(1)] e i shift_split sh Forwarded_Str z or_zero_def)
  then show ?thesis
    by (rule parse_proxied)
qed

theorem absent_port_header_gives_port_0_witness:
  "parse (Obj [(''remoteAddress'', Str ''192.168.1.10''), (''remotePort'', Num (Finite 5000))])
     [''x-real-ip'' \<mapsto> ''1.2.3.4,10.0.0.1''] Undefined
   = Inr \<lparr>Forwarded.ip = Str ''1.2.3.4'', secure = False, port = Finite 0\<rparr>"
proof -
  let ?h = "[''x-real-ip'' \<mapsto> ''1.2.3.4,10.0.0.1'']"
  let ?p = "\<lparr>proxy.ip = ''x-real-ip'', proxy.port = ''x-real-port'', proxy.proto = None\<rparr>"
  have 1: "first_match ?h = Some ?p"
    by (simp add: first_match_def proxies_def)
  have 2: "?h (proxy.ip ?p) = Some ''1.2.3.4,10.0.0.1''" by simp
  have 3: "list_all (\<lambda>s. isIP s \<noteq> 0) (split CHR '','' ''1.2.3.4,10.0.0.1'')"
    by (simp add: isIP_1_2_3_4 isIP_10_0_0_1)
  have 4: "?h (proxy.port ?p) = None \<or> ?h (proxy.port ?p) = Some []" by simp
  have t: "takeWhile (\<lambda>c. c \<noteq> CHR '','') ''1.2.3.4,10.0.0.1'' = ''1.2.3.4''" by simp
  show ?thesis
    using absent_port_header_gives_port_0 [OF 1 2 3 4,
        of "[(''remoteAddress'', Str ''192.168.1.10''), (''remotePort'', Num (Finite 5000))]"
          Undefined]
    unfolding t .
qed

end
